theory Spec2Isabelle
  imports Complex_Main "HOL-Library.Char_ord" "HOL-Library.List_Lexorder" "HOL-Library.Sublist"
    "HOL-Library.Multiset"
begin

section \<open>Data model: one row per team-game observation\<close>

text \<open>
  The processed CSV is a table of game records. The row-wise view below carries the columns
  that \<^verbatim>\<open>__main__.py\<close> and \<^verbatim>\<open>core/plots.py\<close> read. Integer columns are \<open>int\<close>,
  text columns are \<open>string\<close>, and the one fractional column is an exact rational.
\<close>

record game =
  season :: int
  week :: int
  partido_id :: string
  local_team_name :: string
  visitante_team_name :: string
  phase :: string
  team_abbr :: string
  resultado :: string
  sacks_permitidos :: int
  pct_sacks :: rat
  margin :: int
  puntos_anotados :: int

type_synonym table = "game list"

text \<open>
  The sidebar widgets of \<^verbatim>\<open>__main__.py\<close> (lines 34-55). \<open>teams_multiselect\<close> is what the
  "Equipos" multiselect returns; it is only consulted when the "Todos los equipos" checkbox
  is off.
\<close>

record sidebar =
  season_sel :: int
  phase_sel :: "string list"
  all_teams :: bool
  teams_multiselect :: "string list"
  resultado_sel :: string
  min_sacks :: int
  corr_method :: string

section \<open>Table primitives\<close>

text \<open>\<^verbatim>\<open>Series.unique()\<close>: the distinct values in order of first appearance.\<close>

fun unique :: "'a list \<Rightarrow> 'a list" where
  "unique [] = []"
| "unique (x # xs) = x # unique (filter (\<lambda>y. y \<noteq> x) xs)"

text \<open>\<^verbatim>\<open>Series.isin(values)\<close>: an element-wise membership test.\<close>

definition isin :: "'a list \<Rightarrow> 'a list \<Rightarrow> bool list" where
  "isin col vs = map (\<lambda>v. v \<in> set vs) col"

text \<open>The element-wise \<^verbatim>\<open>&\<close> of two boolean series.\<close>

definition band :: "bool list \<Rightarrow> bool list \<Rightarrow> bool list" where
  "band xs ys = map (\<lambda>(a, b). a \<and> b) (zip xs ys)"

text \<open>Boolean indexing \<^verbatim>\<open>df[mask]\<close>: the rows whose mask entry is true, in table order.\<close>

definition select_rows :: "'a list \<Rightarrow> bool list \<Rightarrow> 'a list" where
  "select_rows df m = map fst (filter snd (zip df m))"

section \<open>Filter engine (\<^verbatim>\<open>__main__.py\<close>, lines 41-45 and 58-65)\<close>

text \<open>
  \<^verbatim>\<open>team_sel = sorted(df_raw["team_abbr"].unique()) if all_teams else multiselect(...)\<close>
\<close>

definition team_sel :: "table \<Rightarrow> sidebar \<Rightarrow> string list" where
  "team_sel df_raw sb =
     (if all_teams sb then sort (unique (map team_abbr df_raw)) else teams_multiselect sb)"

text \<open>
  The four-way conjunction of line 58-63. The third conjunct falls back to the table's own
  team column when \<open>team_sel\<close> is empty (Python's truthiness of a list).
\<close>

definition team_mask :: "table \<Rightarrow> sidebar \<Rightarrow> bool list" where
  "team_mask df_raw sb =
     isin (map team_abbr df_raw)
          (if team_sel df_raw sb \<noteq> [] then team_sel df_raw sb else map team_abbr df_raw)"

definition mask_f :: "table \<Rightarrow> sidebar \<Rightarrow> bool list" where
  "mask_f df_raw sb =
     band (band (band (map (\<lambda>r. season r = season_sel sb) df_raw)
                      (isin (map phase df_raw) (phase_sel sb)))
                (team_mask df_raw sb))
          (map (\<lambda>r. min_sacks sb \<le> sacks_permitidos r) df_raw)"

definition df_f :: "table \<Rightarrow> sidebar \<Rightarrow> table" where
  "df_f df_raw sb = select_rows df_raw (mask_f df_raw sb)"

text \<open>
  \<^verbatim>\<open>df_o = df_f if resultado == "all" else df_f[df_f["resultado"] == resultado]\<close>,
  as a function of the first-stage table and the radio button's value.
\<close>

definition df_o :: "table \<Rightarrow> string \<Rightarrow> table" where
  "df_o t sel =
     (if sel = ''all'' then t else select_rows t (map (\<lambda>r. resultado r = sel) t))"

text \<open>The row predicate that the mask computes, written out for one row.\<close>

definition passes :: "table \<Rightarrow> sidebar \<Rightarrow> game \<Rightarrow> bool" where
  "passes df_raw sb r \<longleftrightarrow>
     season r = season_sel sb \<and>
     phase r \<in> set (phase_sel sb) \<and>
     (team_sel df_raw sb = [] \<or> team_abbr r \<in> set (team_sel df_raw sb)) \<and>
     min_sacks sb \<le> sacks_permitidos r"

section \<open>Chart builders (\<^verbatim>\<open>core/plots.py\<close>)\<close>

text \<open>
  \<^verbatim>\<open>sort_values(..., ascending=False)\<close>. pandas reverses the data, sorts ascending and
  reverses the result; the ascending sort is taken to be stable, so rows with equal keys
  keep their table order. The order among equal keys is left to the sorting library by the
  source, and no result below depends on it.
\<close>

definition sort_values_desc :: "('a \<Rightarrow> 'k::linorder) \<Rightarrow> 'a list \<Rightarrow> 'a list" where
  "sort_values_desc key xs = rev (sort_key key (rev xs))"

text \<open>The arithmetic mean of an integer column, as an exact rational.\<close>

definition mean :: "int list \<Rightarrow> rat" where
  "mean xs = of_int (sum_list xs) / of_int (int (length xs))"

text \<open>
  \<^verbatim>\<open>groupby("team_abbr")["sacks_permitidos"].mean()\<close>: one entry per team present in the
  table, the groups in ascending order of the team code.
\<close>

definition groupby_mean :: "table \<Rightarrow> (string \<times> rat) list" where
  "groupby_mean t =
     map (\<lambda>k. (k, mean (map sacks_permitidos (filter (\<lambda>r. team_abbr r = k) t))))
         (sort (unique (map team_abbr t)))"

text \<open>The frame \<^verbatim>\<open>avg\<close> of \<^verbatim>\<open>bar_avg_sacks_losses\<close>: one row per bar.\<close>

definition avg :: "table \<Rightarrow> (string \<times> rat) list" where
  "avg df =
     (let loss_df = select_rows df (map (\<lambda>r. resultado r = ''loss'') df)
      in sort_values_desc snd (groupby_mean loss_df))"

datatype py_error = ValueError | KeyError | IndexError | AttributeError | FileNotFoundError

datatype color_args = ColorDiscreteSequenceSafe | ColorDiscreteMapPhase

text \<open>
  A figure is the plotting call that builds it, with the data handed to the plotting
  library: the library itself is outside the model.
\<close>

datatype figure =
    PxBar "(string \<times> rat) list"
  | PxScatterPoints table string string color_args string
  | PxBox table string
  | PxImshow "string list" "rat option list list"
  | PxScatterMargin table

definition bar_avg_sacks_losses :: "table \<Rightarrow> figure" where
  "bar_avg_sacks_losses df = PxBar (avg df)"

text \<open>
  Both scatter builders ask the plotting library for a trend line. With the scope
  \<^verbatim>\<open>"overall"\<close> the library's call raises \<^verbatim>\<open>IndexError\<close> on a table without rows.
\<close>

definition scatter_sacks_vs_points ::
  "table \<Rightarrow> string \<Rightarrow> string \<Rightarrow> color_args \<Rightarrow> string \<Rightarrow> py_error + figure" where
  "scatter_sacks_vs_points df color_col symbol_col cargs trend_scope =
     (if df = [] \<and> trend_scope = ''overall'' then Inl IndexError
      else Inr (PxScatterPoints df color_col symbol_col cargs trend_scope))"

definition box_sacks_distribution :: "table \<Rightarrow> bool \<Rightarrow> figure" where
  "box_sacks_distribution df group_by_team =
     (if group_by_team then PxBox df ''team_abbr'' else PxBox df ''resultado'')"

text \<open>The margin scatter always asks for the overall trend line.\<close>

definition scatter_sacks_vs_margin :: "table \<Rightarrow> py_error + figure" where
  "scatter_sacks_vs_margin df = (if df = [] then Inl IndexError else Inr (PxScatterMargin df))"

subsection \<open>Correlation heatmap\<close>

text \<open>
  The correlation frame: row and column labels (the same list) and the square of values,
  \<open>None\<close> standing for NaN.
\<close>

record corr_frame =
  labels :: "string list"
  vals :: "rat option list list"

text \<open>\<^verbatim>\<open>corr.iloc[order, order]\<close>; a position outside the frame raises.\<close>

definition iloc :: "corr_frame \<Rightarrow> nat list \<Rightarrow> py_error + corr_frame" where
  "iloc c order =
     (if \<forall>i \<in> set order. i < length (labels c) \<and> i < length (vals c) \<and>
            (\<forall>row \<in> set (vals c). i < length row)
      then Inr \<lparr>labels = map (\<lambda>i. labels c ! i) order,
                vals = map (\<lambda>i. map (\<lambda>j. vals c ! i ! j) order) order\<rparr>
      else Inl IndexError)"

text \<open>\<^verbatim>\<open>np.triu(np.ones_like(corr, dtype=bool))\<close>: true on and above the diagonal.\<close>

definition triu_ones :: "'a list list \<Rightarrow> bool list list" where
  "triu_ones m = map (\<lambda>(i, row). map (\<lambda>j. i \<le> j) [0..<length row]) (enumerate 0 m)"

text \<open>\<^verbatim>\<open>corr.mask(mask)\<close>: a value is replaced by NaN where the mask is true.\<close>

definition mask_where :: "rat option list list \<Rightarrow> bool list list \<Rightarrow> rat option list list" where
  "mask_where m bs =
     map (\<lambda>(row, brow). map (\<lambda>(v, b). if b then None else v) (zip row brow)) (zip m bs)"

text \<open>
  \<open>pd_corr\<close> stands for \<^verbatim>\<open>df[numeric_cols].corr(method=method, numeric_only=True)\<close> and
  \<open>leaves\<close> for \<^verbatim>\<open>sch.dendrogram(sch.linkage(corr, method="average"), no_plot=True)["leaves"]\<close>;
  both belong to third-party libraries and are parameters. The clustering call raises on a
  frame with non-finite values.
\<close>

definition corr_heatmap ::
  "(table \<Rightarrow> string list \<Rightarrow> string \<Rightarrow> corr_frame) \<Rightarrow> (corr_frame \<Rightarrow> py_error + nat list) \<Rightarrow>
   table \<Rightarrow> string list \<Rightarrow> string \<Rightarrow> py_error + figure" where
  "corr_heatmap pd_corr leaves df numeric_cols meth =
     (let corr = pd_corr df numeric_cols meth;
          reordered =
            (if 2 < length numeric_cols
             then (case leaves corr of Inl e \<Rightarrow> Inl e | Inr order \<Rightarrow> iloc corr order)
             else Inr corr)
      in case reordered of
           Inl e \<Rightarrow> Inl e
         | Inr corr' \<Rightarrow>
             Inr (PxImshow (labels corr') (mask_where (vals corr') (triu_ones (vals corr')))))"

subsection \<open>Top-10 table (\<^verbatim>\<open>__main__.py\<close>, lines 119-132)\<close>

definition top10 :: "table \<Rightarrow> table" where
  "top10 t = take 10 (sort_values_desc sacks_permitidos t)"

text \<open>The six display columns, in the order of the projection.\<close>

type_synonym top_row = "int \<times> int \<times> string \<times> string \<times> string \<times> int"

definition project :: "game \<Rightarrow> top_row" where
  "project r =
     (season r, week r, partido_id r, local_team_name r, visitante_team_name r,
      sacks_permitidos r)"

definition top10_display :: "table \<Rightarrow> top_row list" where
  "top10_display t = map project (top10 t)"


section \<open>The page (\<^verbatim>\<open>__main__.py\<close>, lines 75-136)\<close>

text \<open>
  What the script sends to the display, in order. A subheader is recorded by its chart
  number. An exception that no code catches ends the run: nothing after it is displayed.
\<close>

datatype st_output =
    Subheader nat
  | PlotlyChart figure
  | Info string
  | Dataframe "top_row list"
  | Uncaught py_error

definition num_cols :: "string list" where
  "num_cols = [''sacks_permitidos'', ''pct_sacks'', ''margin'', ''puntos_anotados'']"

text \<open>Lines 80-104: the only chart behind an emptiness test.\<close>

definition chart2 :: "table \<Rightarrow> sidebar \<Rightarrow> table \<Rightarrow> py_error + st_output list" where
  "chart2 df_raw sb dfo =
     (if dfo \<noteq> [] then
        (case (if all_teams sb \<or> 1 < length (team_sel df_raw sb)
               then scatter_sacks_vs_points dfo ''team_abbr'' ''phase''
                      ColorDiscreteSequenceSafe ''overall''
               else scatter_sacks_vs_points dfo ''phase'' ''resultado''
                      ColorDiscreteMapPhase ''trace'') of
           Inl e \<Rightarrow> Inl e
         | Inr fig2 \<Rightarrow> Inr [PlotlyChart fig2])
      else Inr [Info ''No hay datos con los filtros actuales.''])"

text \<open>
  Charts 3 and 6 are built from the outcome table without a test; the run ends at the
  first builder that raises.
\<close>

definition page ::
  "(table \<Rightarrow> string list \<Rightarrow> string \<Rightarrow> corr_frame) \<Rightarrow> (corr_frame \<Rightarrow> py_error + nat list) \<Rightarrow>
   table \<Rightarrow> sidebar \<Rightarrow> st_output list" where
  "page pd_corr leaves df_raw sb =
     (let dff = df_f df_raw sb;
          dfo = df_o dff (resultado_sel sb)
      in [Subheader 1, PlotlyChart (bar_avg_sacks_losses dff), Subheader 2]
         @ (case chart2 df_raw sb dfo of
              Inl e \<Rightarrow> [Uncaught e]
            | Inr out2 \<Rightarrow>
                out2
                @ [Subheader 3,
                   PlotlyChart (box_sacks_distribution dfo
                     (all_teams sb \<or> 1 < length (team_sel df_raw sb))),
                   Subheader 4]
                @ (case corr_heatmap pd_corr leaves dff num_cols (corr_method sb) of
                     Inl e \<Rightarrow> [Uncaught e]
                   | Inr fig \<Rightarrow>
                       [PlotlyChart fig, Subheader 5, Dataframe (top10_display dff),
                        Subheader 6]
                       @ (case scatter_sacks_vs_margin dfo of
                            Inl e \<Rightarrow> [Uncaught e]
                          | Inr fig6 \<Rightarrow> [PlotlyChart fig6]))))"

section \<open>Data loader (\<^verbatim>\<open>core/data.py\<close>)\<close>

text \<open>
  The loader asks whether a column is present, so the frame it works on is column-wise:
  the named columns in file order, each a list of cells. \<open>NA\<close> is a missing value
  (NaN or NaT).
\<close>

datatype date = Date int nat nat

datatype cell = IntV int | RatV rat | StrV string | BoolV bool | DateV date | NA

type_synonym frame = "(string \<times> cell list) list"

definition columns :: "frame \<Rightarrow> string list" where
  "columns df = map fst df"

text \<open>\<^verbatim>\<open>df[name]\<close> raises \<^verbatim>\<open>KeyError\<close> on an unknown column.\<close>

definition getcol :: "frame \<Rightarrow> string \<Rightarrow> py_error + cell list" where
  "getcol df name = (case map_of df name of None \<Rightarrow> Inl KeyError | Some c \<Rightarrow> Inr c)"

text \<open>\<^verbatim>\<open>df[name] = col\<close>: replaces the column in place, or appends a new last column.\<close>

definition setcol :: "frame \<Rightarrow> string \<Rightarrow> cell list \<Rightarrow> frame" where
  "setcol df name col =
     (if name \<in> set (columns df)
      then map (\<lambda>(n, c). if n = name then (n, col) else (n, c)) df
      else df @ [(name, col)])"

text \<open>
  \<^verbatim>\<open>.dt.isocalendar().week\<close>. The accessor exists on a datetime column only; a column
  that the CSV reader could not parse as dates is still text and raises. A file with a
  header and no rows gets no date conversion at all, so its empty \<open>fecha\<close> column is
  text too. \<open>isoweek\<close> is the calendar computation of the library, a parameter.
\<close>

definition datetimelike :: "cell list \<Rightarrow> bool" where
  "datetimelike col \<longleftrightarrow>
     col \<noteq> [] \<and> (\<forall>c \<in> set col. case c of DateV d \<Rightarrow> True | NA \<Rightarrow> True | _ \<Rightarrow> False)"

definition week_cell :: "(date \<Rightarrow> int) \<Rightarrow> cell \<Rightarrow> cell" where
  "week_cell isoweek c = (case c of DateV d \<Rightarrow> IntV (isoweek d) | _ \<Rightarrow> NA)"

definition dt_isocalendar_week :: "(date \<Rightarrow> int) \<Rightarrow> cell list \<Rightarrow> py_error + cell list" where
  "dt_isocalendar_week isoweek col =
     (if datetimelike col then Inr (map (week_cell isoweek) col) else Inl AttributeError)"

text \<open>
  \<^verbatim>\<open>.map({True: "Casa", False: "Visitante"})\<close> on the boolean column \<^verbatim>\<open>is_home\<close>; a cell
  without an entry in the dictionary becomes a missing value.
\<close>

definition loc_label :: "cell \<Rightarrow> cell" where
  "loc_label c =
     (case c of
        BoolV b \<Rightarrow> (if b then StrV ''Casa'' else StrV ''Visitante'')
      | _ \<Rightarrow> NA)"

text \<open>
  \<open>read_csv\<close> stands for \<^verbatim>\<open>pd.read_csv(path, parse_dates=["fecha"])\<close>: the file system and
  the CSV parser, with their failures.
\<close>

definition add_week :: "(date \<Rightarrow> int) \<Rightarrow> frame \<Rightarrow> py_error + frame" where
  "add_week isoweek df =
     (if ''week'' \<notin> set (columns df) then
        (case getcol df ''fecha'' of
           Inl e \<Rightarrow> Inl e
         | Inr fecha \<Rightarrow>
             (case dt_isocalendar_week isoweek fecha of
                Inl e \<Rightarrow> Inl e
              | Inr w \<Rightarrow> Inr (setcol df ''week'' w)))
      else Inr df)"

definition add_loc_vi :: "frame \<Rightarrow> py_error + frame" where
  "add_loc_vi df =
     (if ''loc_vi'' \<notin> set (columns df) then
        (case getcol df ''is_home'' of
           Inl e \<Rightarrow> Inl e
         | Inr is_home \<Rightarrow> Inr (setcol df ''loc_vi'' (map loc_label is_home)))
      else Inr df)"

definition load_data ::
  "(string \<Rightarrow> py_error + frame) \<Rightarrow> (date \<Rightarrow> int) \<Rightarrow> string \<Rightarrow> py_error + frame" where
  "load_data read_csv isoweek path =
     (case read_csv path of
        Inl e \<Rightarrow> Inl e
      | Inr df \<Rightarrow>
          (case add_week isoweek df of
             Inl e \<Rightarrow> Inl e
           | Inr df1 \<Rightarrow> add_loc_vi df1))"

text \<open>
  \<^verbatim>\<open>@st.cache_data\<close>: the framework keeps the value returned for each argument and
  answers a repeated call from that store without running the body. A call that raises
  stores nothing. The store is the explicit state here.
\<close>

type_synonym cache = "string \<rightharpoonup> frame"

definition cached_load_data ::
  "(string \<Rightarrow> py_error + frame) \<Rightarrow> (date \<Rightarrow> int) \<Rightarrow> cache \<Rightarrow> string \<Rightarrow>
   (py_error + frame) \<times> cache" where
  "cached_load_data read_csv isoweek c path =
     (case c path of
        Some df \<Rightarrow> (Inr df, c)
      | None \<Rightarrow>
          (case load_data read_csv isoweek path of
             Inl e \<Rightarrow> (Inl e, c)
           | Inr df \<Rightarrow> (Inr df, c(path \<mapsto> df))))"

text \<open>
  The store after a run of further calls, each with its own file system, calendar function
  and path.
\<close>

fun after_calls ::
  "((string \<Rightarrow> py_error + frame) \<times> (date \<Rightarrow> int) \<times> string) list \<Rightarrow> cache \<Rightarrow> cache" where
  "after_calls [] c = c"
| "after_calls ((read_csv, isoweek, p) # cs) c =
     after_calls cs (snd (cached_load_data read_csv isoweek c p))"

section \<open>Sample inputs\<close>

text \<open>A row with the columns the filters and charts read; the other columns are fixed.\<close>

definition mk_row :: "int \<Rightarrow> string \<Rightarrow> string \<Rightarrow> string \<Rightarrow> int \<Rightarrow> game" where
  "mk_row s p t res sacks =
     \<lparr>season = s, week = 1, partido_id = ''g'', local_team_name = ''home'',
      visitante_team_name = ''away'', phase = p, team_abbr = t, resultado = res,
      sacks_permitidos = sacks, pct_sacks = 0, margin = 10, puntos_anotados = 20\<rparr>"

definition sample_table :: table where
  "sample_table =
     [mk_row 2023 ''regular'' ''KC'' ''win'' 2,
      mk_row 2023 ''regular'' ''BUF'' ''win'' 5,
      mk_row 2022 ''playoff'' ''KC'' ''loss'' 7]"

text \<open>Checkbox off and no team picked in the multiselect; outcome "loss".\<close>

definition sample_sidebar :: sidebar where
  "sample_sidebar =
     \<lparr>season_sel = 2023, phase_sel = [''regular'', ''playoff''], all_teams = False,
      teams_multiselect = [], resultado_sel = ''loss'', min_sacks = 0,
      corr_method = ''pearson''\<rparr>"

text \<open>The three rows of the bar-chart scenario.\<close>

definition losses_table :: table where
  "losses_table =
     [mk_row 2023 ''regular'' ''A'' ''loss'' 2,
      mk_row 2023 ''regular'' ''A'' ''loss'' 4,
      mk_row 2023 ''regular'' ''B'' ''win'' 9]"


text \<open>A parsed file without the two optional columns, and one that has them.\<close>

definition sample_frame :: frame where
  "sample_frame =
     [(''fecha'', [DateV (Date 2023 9 10), NA]),
      (''is_home'', [BoolV True, BoolV False]),
      (''sacks_permitidos'', [IntV 2, IntV 5])]"

definition full_frame :: frame where
  "full_frame =
     [(''week'', [IntV 1, IntV 2]),
      (''loc_vi'', [StrV ''Casa'', StrV ''Casa'']),
      (''fecha'', [DateV (Date 2023 9 10), NA]),
      (''is_home'', [BoolV True, BoolV False])]"

text \<open>Stand-ins for the file system and the calendar function, for evaluation only.\<close>

definition sample_fs :: "string \<Rightarrow> py_error + frame" where
  "sample_fs p = (if p = ''processed_data.csv'' then Inr sample_frame
                  else if p = ''full.csv'' then Inr full_frame
                  else Inl FileNotFoundError)"

definition sample_isoweek :: "date \<Rightarrow> int" where
  "sample_isoweek d = (case d of Date y m dd \<Rightarrow> if m = 9 \<and> dd = 10 then 36 else 1)"

text \<open>
  Stand-ins for the correlation and clustering libraries, for evaluation only: a fixed
  symmetric frame over the requested columns, and a fixed leaf order.
\<close>

definition sample_corr :: "table \<Rightarrow> string list \<Rightarrow> string \<Rightarrow> corr_frame" where
  "sample_corr df cols meth =
     \<lparr>labels = cols,
      vals = [[Some 1, Some (1/2), Some (-1/4), Some 0],
              [Some (1/2), Some 1, Some (3/4), Some (-1)],
              [Some (-1/4), Some (3/4), Some 1, Some (1/8)],
              [Some 0, Some (-1), Some (1/8), Some 1]]\<rparr>"

definition sample_leaves :: "corr_frame \<Rightarrow> py_error + nat list" where
  "sample_leaves c = Inr [2, 0, 3, 1]"

definition sample_corr2 :: "table \<Rightarrow> string list \<Rightarrow> string \<Rightarrow> corr_frame" where
  "sample_corr2 df cols meth =
     \<lparr>labels = cols, vals = [[Some 1, Some (1/2)], [Some (1/2), Some 1]]\<rparr>"

section \<open>Basic facts about the table primitives\<close>

lemma band_map: "band (map P xs) (map Q xs) = map (\<lambda>x. P x \<and> Q x) xs"
  by (induction xs) (simp_all add: band_def)

lemma isin_map: "isin (map f xs) vs = map (\<lambda>x. f x \<in> set vs) xs"
  by (simp add: isin_def)

lemma select_rows_map: "select_rows xs (map P xs) = filter P xs"
  by (induction xs) (simp_all add: select_rows_def)

lemma set_unique [simp]: "set (unique xs) = set xs"
proof (induction xs rule: unique.induct)
  case 1
  show ?case by simp
next
  case (2 x xs)
  then show ?case by auto
qed

lemma distinct_unique: "distinct (unique xs)"
proof (induction xs rule: unique.induct)
  case 1
  show ?case by simp
next
  case (2 x xs)
  then show ?case by auto
qed

lemma set_team_sel_all:
  "all_teams sb \<Longrightarrow> set (team_sel t sb) = team_abbr ` set t"
  by (simp add: team_sel_def)

lemma mask_eq: "mask_f t sb = map (passes t sb) t"
proof -
  have "mask_f t sb =
      map (\<lambda>r. ((season r = season_sel sb \<and> phase r \<in> set (phase_sel sb)) \<and>
                team_abbr r \<in> set (if team_sel t sb \<noteq> [] then team_sel t sb
                                    else map team_abbr t)) \<and>
               min_sacks sb \<le> sacks_permitidos r) t"
    unfolding mask_f_def team_mask_def isin_map band_map ..
  also have "\<dots> = map (passes t sb) t"
    by (rule map_cong) (auto simp: passes_def)
  finally show ?thesis .
qed

lemma df_f_eq: "df_f t sb = filter (passes t sb) t"
  by (simp add: df_f_def mask_eq select_rows_map)

lemma df_o_eq:
  "df_o t sel = (if sel = ''all'' then t else filter (\<lambda>r. resultado r = sel) t)"
  by (simp add: df_o_def select_rows_map)


section \<open>First-stage filter\<close>

lemma team_passes_iff:
  assumes "r \<in> set t"
  shows "(team_sel t sb = [] \<or> team_abbr r \<in> set (team_sel t sb)) \<longleftrightarrow>
         (all_teams sb \<or> teams_multiselect sb = [] \<or> team_abbr r \<in> set (teams_multiselect sb))"
proof (cases "all_teams sb")
  case True
  with assms have "team_abbr r \<in> set (team_sel t sb)"
    by (simp add: set_team_sel_all)
  with True show ?thesis by simp
next
  case False
  then show ?thesis by (simp add: team_sel_def)
qed

lemma passes_iff:
  assumes "r \<in> set t"
  shows "passes t sb r \<longleftrightarrow>
         season r = season_sel sb \<and> phase r \<in> set (phase_sel sb) \<and>
         (all_teams sb \<or> teams_multiselect sb = [] \<or> team_abbr r \<in> set (teams_multiselect sb)) \<and>
         min_sacks sb \<le> sacks_permitidos r"
  unfolding passes_def using team_passes_iff [OF assms, of sb] by blast

lemma df_f_explicit:
  "df_f t sb =
     filter (\<lambda>r. season r = season_sel sb \<and> phase r \<in> set (phase_sel sb) \<and>
                 (all_teams sb \<or> teams_multiselect sb = [] \<or>
                  team_abbr r \<in> set (teams_multiselect sb)) \<and>
                 min_sacks sb \<le> sacks_permitidos r) t"
  unfolding df_f_eq by (rule filter_cong) (simp_all add: passes_iff)

text \<open>
  C1 (as amended). The first-stage filter keeps the rows of the table, in table order, that
  have the selected season, a phase in the phase selection, at least the minimum number of
  sacks, and a team in the team selection, where the team test is bypassed both by the
  all-teams checkbox and by an empty team selection. Every returned row passes these four
  tests, and no row of the table that passes them is left out.
\<close>

theorem first_stage_filter_sound_complete:
  "subseq (df_f t sb) t \<and>
   (\<forall>r \<in> set (df_f t sb).
      r \<in> set t \<and> season r = season_sel sb \<and> phase r \<in> set (phase_sel sb) \<and>
      (all_teams sb \<or> teams_multiselect sb = [] \<or>
       team_abbr r \<in> set (teams_multiselect sb)) \<and>
      min_sacks sb \<le> sacks_permitidos r) \<and>
   (\<forall>r \<in> set t.
      season r = season_sel sb \<and> phase r \<in> set (phase_sel sb) \<and>
      (all_teams sb \<or> teams_multiselect sb = [] \<or>
       team_abbr r \<in> set (teams_multiselect sb)) \<and>
      min_sacks sb \<le> sacks_permitidos r \<longrightarrow> r \<in> set (df_f t sb)) \<and>
   df_f t sb =
     filter (\<lambda>r. season r = season_sel sb \<and> phase r \<in> set (phase_sel sb) \<and>
                 (all_teams sb \<or> teams_multiselect sb = [] \<or>
                  team_abbr r \<in> set (teams_multiselect sb)) \<and>
                 min_sacks sb \<le> sacks_permitidos r) t"
proof (intro conjI)
  show "subseq (df_f t sb) t"
    by (simp add: df_f_eq)
next
  show "\<forall>r \<in> set (df_f t sb).
      r \<in> set t \<and> season r = season_sel sb \<and> phase r \<in> set (phase_sel sb) \<and>
      (all_teams sb \<or> teams_multiselect sb = [] \<or>
       team_abbr r \<in> set (teams_multiselect sb)) \<and>
      min_sacks sb \<le> sacks_permitidos r"
    by (simp add: df_f_explicit)
next
  show "\<forall>r \<in> set t.
      season r = season_sel sb \<and> phase r \<in> set (phase_sel sb) \<and>
      (all_teams sb \<or> teams_multiselect sb = [] \<or>
       team_abbr r \<in> set (teams_multiselect sb)) \<and>
      min_sacks sb \<le> sacks_permitidos r \<longrightarrow> r \<in> set (df_f t sb)"
    by (simp add: df_f_explicit)
next
  show "df_f t sb =
     filter (\<lambda>r. season r = season_sel sb \<and> phase r \<in> set (phase_sel sb) \<and>
                 (all_teams sb \<or> teams_multiselect sb = [] \<or>
                  team_abbr r \<in> set (teams_multiselect sb)) \<and>
                 min_sacks sb \<le> sacks_permitidos r) t"
    by (rule df_f_explicit)
qed

lemma df_f_sample:
  "df_f sample_table sample_sidebar =
     [mk_row 2023 ''regular'' ''KC'' ''win'' 2, mk_row 2023 ''regular'' ''BUF'' ''win'' 5]"
  by (simp add: df_f_explicit sample_table_def sample_sidebar_def mk_row_def)

theorem first_stage_filter_witness:
  "mk_row 2023 ''regular'' ''KC'' ''win'' 2 \<in> set (df_f sample_table sample_sidebar) \<and>
   mk_row 2023 ''regular'' ''KC'' ''win'' 2 \<in> set sample_table \<and>
   season (mk_row 2023 ''regular'' ''KC'' ''win'' 2) = season_sel sample_sidebar \<and>
   min_sacks sample_sidebar \<le> sacks_permitidos (mk_row 2023 ''regular'' ''KC'' ''win'' 2) \<and>
   subseq (df_f sample_table sample_sidebar) sample_table"
  using first_stage_filter_sound_complete [of sample_table sample_sidebar]
  by (simp add: df_f_sample)

text \<open>
  C1 as written fails: with the checkbox off and nothing picked in the multiselect, a row
  is returned although its team is not in the (empty) team selection and the all-teams
  flag is off.
\<close>

theorem first_stage_team_counterexample:
  "mk_row 2023 ''regular'' ''KC'' ''win'' 2 \<in> set (df_f sample_table sample_sidebar) \<and>
   \<not> all_teams sample_sidebar \<and>
   team_abbr (mk_row 2023 ''regular'' ''KC'' ''win'' 2) \<notin> set (teams_multiselect sample_sidebar)"
proof -
  have "mk_row 2023 ''regular'' ''KC'' ''win'' 2 \<in> set (df_f sample_table sample_sidebar)"
    by (simp add: df_f_sample)
  moreover have "\<not> all_teams sample_sidebar" "teams_multiselect sample_sidebar = []"
    by (simp_all add: sample_sidebar_def)
  ultimately show ?thesis by simp
qed

section \<open>Outcome filter\<close>

text \<open>
  C3. The second-stage filter with selector "all" returns the table unchanged; with
  selector "win" or "loss" it returns exactly the rows whose \<open>resultado\<close> equals the
  selector, in table order.
\<close>

theorem outcome_filter_all_identity:
  "df_o t ''all'' = t \<and>
   (sel = ''win'' \<or> sel = ''loss'' \<longrightarrow>
      df_o t sel = filter (\<lambda>r. resultado r = sel) t \<and>
      set (df_o t sel) = {r \<in> set t. resultado r = sel})"
  by (auto simp: df_o_eq)

theorem outcome_filter_witness:
  "df_o sample_table ''all'' = sample_table \<and>
   df_o sample_table ''loss'' = [mk_row 2022 ''playoff'' ''KC'' ''loss'' 7]"
  using outcome_filter_all_identity [of sample_table "''loss''"]
  by (simp add: sample_table_def mk_row_def)

section \<open>Idempotence of the first stage\<close>

lemma passes_refilter:
  assumes "r \<in> set (filter (passes t sb) t)"
  shows "passes (filter (passes t sb) t) sb r"
proof -
  from assms have r: "r \<in> set t" "passes t sb r" by simp_all
  show ?thesis
  proof (cases "all_teams sb")
    case True
    have "team_abbr r \<in> set (team_sel (filter (passes t sb) t) sb)"
      using assms True by (simp add: set_team_sel_all del: set_filter)
    with r(2) show ?thesis by (simp add: passes_def)
  next
    case False
    then have "team_sel (filter (passes t sb) t) sb = team_sel t sb"
      by (simp add: team_sel_def)
    with r(2) show ?thesis by (simp add: passes_def)
  qed
qed

text \<open>
  C4. Applying the first-stage filter to its own result, with the same sidebar state,
  changes nothing. The team selection is recomputed from the table the filter is given,
  as the script computes it from the table it filters.
\<close>

theorem first_stage_idempotent:
  "df_f (df_f t sb) sb = df_f t sb"
proof -
  have "filter (passes (filter (passes t sb) t) sb) (filter (passes t sb) t)
        = filter (passes t sb) t"
    using passes_refilter [of _ t sb] by (simp only: filter_id_conv) blast
  then show ?thesis by (simp only: df_f_eq)
qed

section \<open>Empty selections\<close>

lemma team_mask_eq:
  "team_mask t sb =
     map (\<lambda>r. team_sel t sb = [] \<or> team_abbr r \<in> set (team_sel t sb)) t"
  unfolding team_mask_def isin_map by (rule map_cong) auto

text \<open>
  C10. With the all-teams checkbox off and no team picked, the team conjunct of the mask is
  true on every row, and the first stage returns what it returns with the checkbox on. An
  empty phase selection, in contrast, matches no row: the result is the empty table.
\<close>

theorem empty_team_selection_bypassed:
  "(\<not> all_teams sb \<and> teams_multiselect sb = [] \<longrightarrow>
      team_mask t sb = replicate (length t) True \<and>
      df_f t sb = df_f t (sb\<lparr>all_teams := True\<rparr>)) \<and>
   (phase_sel sb = [] \<longrightarrow> df_f t sb = [])"
proof (intro conjI impI)
  assume a: "\<not> all_teams sb \<and> teams_multiselect sb = []"
  then have "team_sel t sb = []" by (simp add: team_sel_def)
  then have "team_mask t sb = map (\<lambda>r. True) t"
    by (simp add: team_mask_eq)
  then show "team_mask t sb = replicate (length t) True"
    by (simp add: map_replicate_const)
  from a show "df_f t sb = df_f t (sb\<lparr>all_teams := True\<rparr>)"
    by (simp add: df_f_explicit)
next
  assume "phase_sel sb = []"
  then show "df_f t sb = []" by (simp add: df_f_explicit)
qed

theorem empty_team_selection_witness:
  "\<not> all_teams sample_sidebar \<and> teams_multiselect sample_sidebar = [] \<and>
   team_mask sample_table sample_sidebar = [True, True, True] \<and>
   df_f sample_table sample_sidebar = df_f sample_table (sample_sidebar\<lparr>all_teams := True\<rparr>) \<and>
   phase_sel (sample_sidebar\<lparr>phase_sel := []\<rparr>) = [] \<and>
   df_f sample_table (sample_sidebar\<lparr>phase_sel := []\<rparr>) = []"
proof -
  have h: "\<not> all_teams sample_sidebar \<and> teams_multiselect sample_sidebar = []"
    by (simp add: sample_sidebar_def)
  have len: "replicate (length sample_table) True = [True, True, True]"
    by (simp add: sample_table_def)
  have p: "phase_sel (sample_sidebar\<lparr>phase_sel := []\<rparr>) = []"
    by simp
  from empty_team_selection_bypassed [of sample_sidebar sample_table] h
  have a: "team_mask sample_table sample_sidebar = replicate (length sample_table) True"
    and b: "df_f sample_table sample_sidebar =
            df_f sample_table (sample_sidebar\<lparr>all_teams := True\<rparr>)"
    by blast+
  from empty_team_selection_bypassed [of "sample_sidebar\<lparr>phase_sel := []\<rparr>" sample_table] p
  have c: "df_f sample_table (sample_sidebar\<lparr>phase_sel := []\<rparr>) = []"
    by blast
  from h a [unfolded len] b p c show ?thesis by blast
qed

section \<open>Empty outcome table on the page\<close>

lemma chart2_empty:
  "chart2 t sb [] = Inr [Info ''No hay datos con los filtros actuales.'']"
  by (simp add: chart2_def)

lemma chart2_nonempty:
  "dfo \<noteq> [] \<Longrightarrow> \<exists>fig2. chart2 t sb dfo = Inr [PlotlyChart fig2]"
  by (simp add: chart2_def scatter_sacks_vs_points_def)

lemma scatter_sacks_vs_margin_empty: "scatter_sacks_vs_margin [] = Inl IndexError"
  by (simp add: scatter_sacks_vs_margin_def)

lemma page_box_on_empty:
  assumes "df_o (df_f t sb) (resultado_sel sb) = []"
  shows "PlotlyChart (box_sacks_distribution [] (all_teams sb \<or> 1 < length (team_sel t sb)))
         \<in> set (page pd_corr leaves t sb)"
  using assms by (simp add: page_def Let_def chart2_empty)

lemma page_margin_on_empty:
  assumes "df_o (df_f t sb) (resultado_sel sb) = []"
    and "corr_heatmap pd_corr leaves (df_f t sb) num_cols (corr_method sb) = Inr fig"
  shows "last (page pd_corr leaves t sb) = Uncaught IndexError"
  using assms by (simp add: page_def Let_def chart2_empty scatter_sacks_vs_margin_empty)

lemma df_o_sample:
  "df_o (df_f sample_table sample_sidebar) (resultado_sel sample_sidebar) = []"
proof -
  have "resultado_sel sample_sidebar = ''loss''"
    by (simp add: sample_sidebar_def)
  then show ?thesis
    by (simp add: df_f_sample df_o_eq mk_row_def)
qed

lemma flags_sample:
  "\<not> all_teams sample_sidebar" "team_sel sample_table sample_sidebar = []"
  "corr_method sample_sidebar = ''pearson''"
  by (simp_all add: team_sel_def sample_sidebar_def)

text \<open>
  C2 on the code. Two winning rows pass the first stage and the outcome selector is
  "loss", so the outcome table is empty. The page shows the notice in place of chart 2
  only: the box builder is called with the empty table and its chart is displayed, and
  whenever the run gets past the heatmap the margin scatter builder is called with the
  empty table as well, where it raises and ends the run.
\<close>

theorem empty_outcome_still_charted:
  "df_o (df_f sample_table sample_sidebar) (resultado_sel sample_sidebar) = [] \<and>
   page pd_corr leaves sample_table sample_sidebar =
     [Subheader 1, PlotlyChart (bar_avg_sacks_losses (df_f sample_table sample_sidebar)),
      Subheader 2, Info ''No hay datos con los filtros actuales.'',
      Subheader 3, PlotlyChart (box_sacks_distribution [] False),
      Subheader 4]
     @ (case corr_heatmap pd_corr leaves (df_f sample_table sample_sidebar) num_cols
               ''pearson'' of
          Inl e \<Rightarrow> [Uncaught e]
        | Inr fig \<Rightarrow>
            [PlotlyChart fig, Subheader 5,
             Dataframe (top10_display (df_f sample_table sample_sidebar)),
             Subheader 6, Uncaught IndexError]) \<and>
   box_sacks_distribution [] False = PxBox [] ''resultado'' \<and>
   scatter_sacks_vs_margin [] = Inl IndexError"
  by (simp add: page_def Let_def df_o_sample flags_sample chart2_empty
      scatter_sacks_vs_margin_empty box_sacks_distribution_def split: sum.split)

section \<open>Descending sort\<close>

lemma mset_sort_values_desc [simp]: "mset (sort_values_desc key xs) = mset xs"
  by (simp add: sort_values_desc_def)

lemma set_sort_values_desc [simp]: "set (sort_values_desc key xs) = set xs"
  by (simp add: sort_values_desc_def)

lemma length_sort_values_desc [simp]: "length (sort_values_desc key xs) = length xs"
  by (simp add: sort_values_desc_def)

lemma sorted_sort_values_desc: "sorted (rev (map key (sort_values_desc key xs)))"
  by (simp add: sort_values_desc_def rev_map [symmetric])

lemma distinct_map_sort_values_desc:
  "distinct (map f (sort_values_desc key xs)) = distinct (map f xs)"
proof -
  have "mset (map f (sort_values_desc key xs)) = mset (map f xs)"
    by simp
  then show ?thesis by (rule mset_eq_imp_distinct_iff)
qed

section \<open>Average sacks in losses\<close>

lemma map_fst_groupby_mean:
  "map fst (groupby_mean t) = sort (unique (map team_abbr t))"
  by (simp add: groupby_mean_def comp_def)

lemma groupby_mean_entry:
  "(k, v) \<in> set (groupby_mean t) \<Longrightarrow>
     v = mean (map sacks_permitidos (filter (\<lambda>r. team_abbr r = k) t))"
  by (auto simp: groupby_mean_def)

lemma avg_eq:
  "avg df = sort_values_desc snd (groupby_mean (filter (\<lambda>r. resultado r = ''loss'') df))"
  by (simp add: avg_def select_rows_map)

lemma avg_teams:
  "set (map fst (avg df)) = {team_abbr r | r. r \<in> set df \<and> resultado r = ''loss''}"
proof -
  have "set (map fst (avg df)) =
        fst ` set (groupby_mean (filter (\<lambda>r. resultado r = ''loss'') df))"
    by (simp add: avg_eq)
  also have "\<dots> = set (map fst (groupby_mean (filter (\<lambda>r. resultado r = ''loss'') df)))"
    by simp
  also have "\<dots> = team_abbr ` set (filter (\<lambda>r. resultado r = ''loss'') df)"
    by (simp only: map_fst_groupby_mean set_sort set_unique set_map)
  also have "\<dots> = {team_abbr r | r. r \<in> set df \<and> resultado r = ''loss''}"
    by auto
  finally show ?thesis .
qed

lemma avg_distinct: "distinct (map fst (avg df))"
  by (simp add: avg_eq distinct_map_sort_values_desc map_fst_groupby_mean distinct_unique)

lemma avg_value:
  assumes "(k, v) \<in> set (avg df)"
  shows "v = mean (map sacks_permitidos
                 (filter (\<lambda>r. resultado r = ''loss'' \<and> team_abbr r = k) df))"
proof -
  from assms have "(k, v) \<in> set (groupby_mean (filter (\<lambda>r. resultado r = ''loss'') df))"
    by (simp add: avg_eq)
  then have "v = mean (map sacks_permitidos
      (filter (\<lambda>r. team_abbr r = k) (filter (\<lambda>r. resultado r = ''loss'') df)))"
    by (rule groupby_mean_entry)
  also have "filter (\<lambda>r. team_abbr r = k) (filter (\<lambda>r. resultado r = ''loss'') df)
           = filter (\<lambda>r. resultado r = ''loss'' \<and> team_abbr r = k) df"
    by (simp add: conj_commute)
  finally show ?thesis .
qed

lemma avg_losses_table: "avg losses_table = [(''A'', 3)]"
  by (simp add: avg_eq losses_table_def mk_row_def groupby_mean_def mean_def
      sort_values_desc_def)

text \<open>
  C6. The bar chart gets one bar per team that has at least one loss row in its input, and
  for no other team; a bar's value is the mean of \<open>sacks_permitidos\<close> over that team's loss
  rows; the bars are in descending order of value. On the three-row scenario there is
  exactly one bar, team A with value 3.
\<close>

theorem bar_avg_sacks_losses_correct:
  "bar_avg_sacks_losses df = PxBar (avg df) \<and>
   distinct (map fst (avg df)) \<and>
   set (map fst (avg df)) = {team_abbr r | r. r \<in> set df \<and> resultado r = ''loss''} \<and>
   (\<forall>(k, v) \<in> set (avg df).
      v = mean (map sacks_permitidos
                 (filter (\<lambda>r. resultado r = ''loss'' \<and> team_abbr r = k) df))) \<and>
   sorted (rev (map snd (avg df))) \<and>
   bar_avg_sacks_losses losses_table = PxBar [(''A'', 3)]"
proof (intro conjI)
  show "bar_avg_sacks_losses df = PxBar (avg df)"
    by (simp add: bar_avg_sacks_losses_def)
  show "distinct (map fst (avg df))"
    by (rule avg_distinct)
  show "set (map fst (avg df)) = {team_abbr r | r. r \<in> set df \<and> resultado r = ''loss''}"
    by (rule avg_teams)
  show "\<forall>(k, v) \<in> set (avg df).
      v = mean (map sacks_permitidos
                 (filter (\<lambda>r. resultado r = ''loss'' \<and> team_abbr r = k) df))"
    using avg_value by blast
  show "sorted (rev (map snd (avg df)))"
    unfolding avg_eq by (rule sorted_sort_values_desc)
  show "bar_avg_sacks_losses losses_table = PxBar [(''A'', 3)]"
    by (simp add: bar_avg_sacks_losses_def avg_losses_table)
qed

theorem bar_avg_sacks_losses_witness:
  "(''A'', 3) \<in> set (avg losses_table) \<and>
   3 = mean (map sacks_permitidos
          (filter (\<lambda>r. resultado r = ''loss'' \<and> team_abbr r = ''A'') losses_table)) \<and>
   ''B'' \<notin> set (map fst (avg losses_table)) \<and>
   bar_avg_sacks_losses losses_table = PxBar [(''A'', 3)]"
proof -
  have m: "(''A'', 3) \<in> set (avg losses_table)"
    by (simp add: avg_losses_table)
  from bar_avg_sacks_losses_correct [of losses_table] m
  have "3 = mean (map sacks_permitidos
          (filter (\<lambda>r. resultado r = ''loss'' \<and> team_abbr r = ''A'') losses_table))"
    by blast
  moreover have "''B'' \<notin> set (map fst (avg losses_table))"
    by (simp add: avg_losses_table)
  moreover have "bar_avg_sacks_losses losses_table = PxBar [(''A'', 3)]"
    using bar_avg_sacks_losses_correct [of losses_table] by blast
  ultimately show ?thesis using m by blast
qed

section \<open>Top-10 table\<close>














section \<open>Data loader\<close>










text \<open>
  Where the loader raises instead: a table without rows, or with a \<open>fecha\<close> column that
  holds anything but dates, has no datetime accessor, and a missing \<open>is_home\<close> column is a
  key error.
\<close>

lemma load_data_no_rows:
  assumes "read_csv path = Inr df" and "''week'' \<notin> set (columns df)"
    and "getcol df ''fecha'' = Inr []"
  shows "load_data read_csv isoweek path = Inl AttributeError"
  using assms
  by (simp add: load_data_def add_week_def dt_isocalendar_week_def datetimelike_def)

lemma load_data_unparsed_dates:
  assumes "read_csv path = Inr df" and "''week'' \<notin> set (columns df)"
    and "getcol df ''fecha'' = Inr fecha" and "\<not> datetimelike fecha"
  shows "load_data read_csv isoweek path = Inl AttributeError"
  using assms
  by (simp add: load_data_def add_week_def dt_isocalendar_week_def)

lemma load_data_no_is_home:
  assumes "read_csv path = Inr df" and "''week'' \<in> set (columns df)"
    and "''loc_vi'' \<notin> set (columns df)" and "getcol df ''is_home'' = Inl KeyError"
  shows "load_data read_csv isoweek path = Inl KeyError"
  using assms
  by (simp add: load_data_def add_week_def add_loc_vi_def)


lemma sample_frame_facts:
  "sample_fs ''processed_data.csv'' = Inr sample_frame"
  "''week'' \<notin> set (columns sample_frame)"
  "''loc_vi'' \<notin> set (columns sample_frame)"
  "''sacks_permitidos'' \<in> set (columns sample_frame)"
  "getcol sample_frame ''fecha'' = Inr [DateV (Date 2023 9 10), NA]"
  "getcol sample_frame ''is_home'' = Inr [BoolV True, BoolV False]"
  "getcol sample_frame ''sacks_permitidos'' = Inr [IntV 2, IntV 5]"
  "datetimelike [DateV (Date 2023 9 10), NA]"
  by (simp_all add: sample_fs_def sample_frame_def columns_def getcol_def datetimelike_def)


section \<open>Memoised loading\<close>

lemma cached_hit:
  "c path = Some df \<Longrightarrow> cached_load_data read_csv isoweek c path = (Inr df, c)"
  by (simp add: cached_load_data_def)

lemma cached_keeps:
  "c path = Some df \<Longrightarrow> snd (cached_load_data read_csv isoweek c p) path = Some df"
  by (cases "p = path")
     (auto simp: cached_load_data_def split: option.splits sum.splits)

lemma after_calls_keeps:
  "c path = Some df \<Longrightarrow> after_calls cs c path = Some df"
proof (induction cs arbitrary: c)
  case Nil
  then show ?case by simp
next
  case (Cons call cs)
  obtain rc iw p where call: "call = (rc, iw, p)"
    by (cases call)
  from Cons.prems have "snd (cached_load_data rc iw c p) path = Some df"
    by (rule cached_keeps)
  then show ?case
    unfolding call after_calls.simps by (rule Cons.IH)
qed

lemma cached_success_stored:
  "cached_load_data read_csv isoweek c path = (Inr df, c1) \<Longrightarrow> c1 path = Some df"
  by (auto simp: cached_load_data_def split: option.splits sum.splits)

lemma cached_repeat:
  "cached_load_data read_csv isoweek c path = (r, c1) \<Longrightarrow>
   cached_load_data read_csv isoweek c1 path = (r, c1)"
  by (auto simp: cached_load_data_def split: option.splits sum.splits)

text \<open>
  C9. A second call of the cached loader with the same path, right after the first and
  against the same file system, returns what the first call returned and leaves the store
  as it is. Once a call has returned a table, every later call with that path returns the
  same table, whatever calls came in between and whatever has become of the file; the
  derived \<open>week\<close> and \<open>loc_vi\<close> columns are columns of that table.
\<close>

theorem load_data_memoized:
  assumes "cached_load_data read_csv isoweek c path = (r, c1)"
  shows "cached_load_data read_csv isoweek c1 path = (r, c1) \<and>
         (\<forall>df. r = Inr df \<longrightarrow>
            (\<forall>read_csv' isoweek' cs.
               cached_load_data read_csv' isoweek' (after_calls cs c1) path
                 = (Inr df, after_calls cs c1)))"
proof (intro conjI allI impI)
  show "cached_load_data read_csv isoweek c1 path = (r, c1)"
    using assms by (rule cached_repeat)
next
  fix df read_csv' isoweek' cs
  assume "r = Inr df"
  with assms have "c1 path = Some df"
    by (simp add: cached_success_stored)
  then have "after_calls cs c1 path = Some df"
    by (rule after_calls_keeps)
  then show "cached_load_data read_csv' isoweek' (after_calls cs c1) path
             = (Inr df, after_calls cs c1)"
    by (rule cached_hit)
qed

lemma load_data_sample:
  "load_data sample_fs sample_isoweek ''processed_data.csv'' =
     Inr (sample_frame @ [(''week'', [IntV 36, NA]),
                          (''loc_vi'', [StrV ''Casa'', StrV ''Visitante''])])"
  by (simp add: load_data_def add_week_def add_loc_vi_def sample_frame_facts
      dt_isocalendar_week_def setcol_def columns_def getcol_def sample_frame_def
      week_cell_def loc_label_def sample_isoweek_def)

theorem load_data_memoized_witness:
  "cached_load_data sample_fs sample_isoweek Map.empty ''processed_data.csv'' =
     (Inr (sample_frame @ [(''week'', [IntV 36, NA]),
                           (''loc_vi'', [StrV ''Casa'', StrV ''Visitante''])]),
      [''processed_data.csv'' \<mapsto>
         sample_frame @ [(''week'', [IntV 36, NA]),
                         (''loc_vi'', [StrV ''Casa'', StrV ''Visitante''])]]) \<and>
   fst (cached_load_data (\<lambda>p. Inl FileNotFoundError) (\<lambda>d. 0)
          (after_calls [(sample_fs, sample_isoweek, ''full.csv'')]
             [''processed_data.csv'' \<mapsto>
                sample_frame @ [(''week'', [IntV 36, NA]),
                                (''loc_vi'', [StrV ''Casa'', StrV ''Visitante''])]])
          ''processed_data.csv'') =
     Inr (sample_frame @ [(''week'', [IntV 36, NA]),
                          (''loc_vi'', [StrV ''Casa'', StrV ''Visitante''])])"
proof -
  let ?df = "sample_frame @ [(''week'', [IntV 36, NA]),
                             (''loc_vi'', [StrV ''Casa'', StrV ''Visitante''])]"
  have first: "cached_load_data sample_fs sample_isoweek Map.empty ''processed_data.csv'' =
      (Inr ?df, [''processed_data.csv'' \<mapsto> ?df])"
    by (simp add: cached_load_data_def load_data_sample)
  from load_data_memoized [OF first]
  have "cached_load_data (\<lambda>p. Inl FileNotFoundError) (\<lambda>d. 0)
          (after_calls [(sample_fs, sample_isoweek, ''full.csv'')]
             [''processed_data.csv'' \<mapsto> ?df])
          ''processed_data.csv'' =
        (Inr ?df, after_calls [(sample_fs, sample_isoweek, ''full.csv'')]
             [''processed_data.csv'' \<mapsto> ?df])"
    by blast
  then have "fst (cached_load_data (\<lambda>p. Inl FileNotFoundError) (\<lambda>d. 0)
          (after_calls [(sample_fs, sample_isoweek, ''full.csv'')]
             [''processed_data.csv'' \<mapsto> ?df])
          ''processed_data.csv'') = Inr ?df"
    by simp
  with first show ?thesis by blast
qed

section \<open>Correlation heatmap\<close>

lemma length_triu_ones [simp]: "length (triu_ones m) = length m"
  by (simp add: triu_ones_def)

lemma nth_triu_ones:
  "i < length m \<Longrightarrow> triu_ones m ! i = map (\<lambda>j. i \<le> j) [0..<length (m ! i)]"
  by (simp add: triu_ones_def nth_enumerate_eq)

lemma length_masked [simp]: "length (mask_where m (triu_ones m)) = length m"
  by (simp add: mask_where_def)

lemma nth_masked_row:
  assumes "i < length m"
  shows "mask_where m (triu_ones m) ! i =
         map (\<lambda>(v, b). if b then None else v)
             (zip (m ! i) (map (\<lambda>j. i \<le> j) [0..<length (m ! i)]))"
  using assms by (simp add: mask_where_def nth_triu_ones)

lemma length_masked_row:
  "i < length m \<Longrightarrow> length (mask_where m (triu_ones m) ! i) = length (m ! i)"
  by (simp add: nth_masked_row)

lemma nth_masked:
  assumes "i < length m" and "j < length (m ! i)"
  shows "mask_where m (triu_ones m) ! i ! j = (if i \<le> j then None else m ! i ! j)"
  using assms by (simp add: nth_masked_row)

lemma masked_values_subset:
  assumes "row \<in> set (mask_where m bs)" and "Some x \<in> set row"
  shows "\<exists>row0 \<in> set m. Some x \<in> set row0"
proof -
  from assms(1) obtain r0 b0 where rb: "(r0, b0) \<in> set (zip m bs)"
    and row: "row = map (\<lambda>(v, b). if b then None else v) (zip r0 b0)"
    by (auto simp: mask_where_def)
  from assms(2) row obtain v b where vb: "(v, b) \<in> set (zip r0 b0)"
    and "Some x = (if b then None else v)"
    by auto
  then have "v = Some x" by (simp split: if_splits)
  with vb have "Some x \<in> set r0" by (auto dest: set_zip_leftD)
  moreover from rb have "r0 \<in> set m" by (rule set_zip_leftD)
  ultimately show ?thesis by blast
qed

lemma iloc_values_subset:
  assumes "iloc c order = Inr c'" and "row \<in> set (vals c')" and "Some x \<in> set row"
  shows "\<exists>row0 \<in> set (vals c). Some x \<in> set row0"
proof -
  from assms(1) have ok: "\<forall>i \<in> set order. i < length (labels c) \<and> i < length (vals c) \<and>
            (\<forall>row \<in> set (vals c). i < length row)"
    and c': "vals c' = map (\<lambda>i. map (\<lambda>j. vals c ! i ! j) order) order"
    by (auto simp: iloc_def split: if_splits)
  from assms(2) c' obtain i where i: "i \<in> set order"
    and row: "row = map (\<lambda>j. vals c ! i ! j) order"
    by auto
  from assms(3) row obtain j where j: "j \<in> set order" and x: "Some x = vals c ! i ! j"
    by auto
  from ok i have il: "i < length (vals c)" by blast
  then have mem: "vals c ! i \<in> set (vals c)" by simp
  with ok j have "j < length (vals c ! i)" by blast
  then have "vals c ! i ! j \<in> set (vals c ! i)" by simp
  with x mem show ?thesis by auto
qed

lemma corr_heatmap_small:
  assumes "length cols < 3"
  shows "corr_heatmap pd_corr leaves df cols meth =
         Inr (PxImshow (labels (pd_corr df cols meth))
               (mask_where (vals (pd_corr df cols meth))
                  (triu_ones (vals (pd_corr df cols meth)))))"
proof -
  from assms have "\<not> 2 < length cols" by simp
  then show ?thesis by (simp add: corr_heatmap_def Let_def)
qed

lemma corr_heatmap_result:
  assumes "corr_heatmap pd_corr leaves df cols meth = Inr fig"
  obtains c' :: corr_frame where "fig = PxImshow (labels c') (mask_where (vals c') (triu_ones (vals c')))"
    and "\<forall>row \<in> set (vals c'). \<forall>x. Some x \<in> set row \<longrightarrow>
           (\<exists>row0 \<in> set (vals (pd_corr df cols meth)). Some x \<in> set row0)"
proof (cases "2 < length cols")
  case True
  with assms obtain order c' where "leaves (pd_corr df cols meth) = Inr order"
    and il: "iloc (pd_corr df cols meth) order = Inr c'"
    and fig: "fig = PxImshow (labels c') (mask_where (vals c') (triu_ones (vals c')))"
    by (auto simp: corr_heatmap_def Let_def split: sum.splits)
  from il have "\<forall>row \<in> set (vals c'). \<forall>x. Some x \<in> set row \<longrightarrow>
           (\<exists>row0 \<in> set (vals (pd_corr df cols meth)). Some x \<in> set row0)"
    using iloc_values_subset by blast
  with fig show ?thesis by (rule that)
next
  case False
  with assms
  have "fig = PxImshow (labels (pd_corr df cols meth))
               (mask_where (vals (pd_corr df cols meth))
                  (triu_ones (vals (pd_corr df cols meth))))"
    by (simp add: corr_heatmap_def Let_def)
  then show ?thesis by (rule that) blast
qed

lemma corr_heatmap_returns:
  assumes "2 < length cols" and "leaves (pd_corr df cols meth) = Inr order"
    and "\<forall>i \<in> set order. i < length (labels (pd_corr df cols meth)) \<and>
           i < length (vals (pd_corr df cols meth)) \<and>
           (\<forall>row \<in> set (vals (pd_corr df cols meth)). i < length row)"
  shows "\<exists>fig. corr_heatmap pd_corr leaves df cols meth = Inr fig"
  using assms by (simp add: corr_heatmap_def Let_def iloc_def)

text \<open>
  C8. Whenever the heatmap builder returns a figure, every cell on or above the diagonal
  of the displayed matrix is masked, for any number of columns and any method. A displayed
  value is a value of the correlation frame the statistics library returned, so the
  displayed values lie in \<open>[-1, 1]\<close> when the library's correlations do. With fewer than
  three columns the clustering step is not run: labels and the cells below the diagonal
  are those of the library's frame, in its order.
\<close>

theorem corr_heatmap_masks_upper_triangle:
  assumes "corr_heatmap pd_corr leaves df cols meth = Inr fig"
  shows "\<exists>ls m. fig = PxImshow ls m \<and>
     (\<forall>i < length m. \<forall>j < length (m ! i). i \<le> j \<longrightarrow> m ! i ! j = None) \<and>
     ((\<forall>row \<in> set (vals (pd_corr df cols meth)).
          \<forall>x. Some x \<in> set row \<longrightarrow> - 1 \<le> x \<and> x \<le> 1) \<longrightarrow>
      (\<forall>row \<in> set m. \<forall>x. Some x \<in> set row \<longrightarrow> - 1 \<le> x \<and> x \<le> 1)) \<and>
     (length cols < 3 \<longrightarrow>
        ls = labels (pd_corr df cols meth) \<and>
        length m = length (vals (pd_corr df cols meth)) \<and>
        (\<forall>i < length m.
           length (m ! i) = length (vals (pd_corr df cols meth) ! i) \<and>
           (\<forall>j < length (m ! i). j < i \<longrightarrow>
              m ! i ! j = vals (pd_corr df cols meth) ! i ! j)))"
proof -
  let ?corr = "pd_corr df cols meth"
  from assms obtain c' :: corr_frame where
    fig: "fig = PxImshow (labels c') (mask_where (vals c') (triu_ones (vals c')))"
    and sub: "\<forall>row \<in> set (vals c'). \<forall>x. Some x \<in> set row \<longrightarrow>
           (\<exists>row0 \<in> set (vals ?corr). Some x \<in> set row0)"
    by (rule corr_heatmap_result)
  let ?m = "mask_where (vals c') (triu_ones (vals c'))"
  have upper: "\<forall>i < length ?m. \<forall>j < length (?m ! i). i \<le> j \<longrightarrow> ?m ! i ! j = None"
    by (simp add: length_masked_row nth_masked)
  have range: "(\<forall>row \<in> set (vals ?corr). \<forall>x. Some x \<in> set row \<longrightarrow> - 1 \<le> x \<and> x \<le> 1) \<longrightarrow>
      (\<forall>row \<in> set ?m. \<forall>x. Some x \<in> set row \<longrightarrow> - 1 \<le> x \<and> x \<le> 1)"
  proof (intro impI ballI allI)
    fix row x
    assume lib: "\<forall>row \<in> set (vals ?corr). \<forall>x. Some x \<in> set row \<longrightarrow> - 1 \<le> x \<and> x \<le> 1"
      and row: "row \<in> set ?m" and x: "Some x \<in> set row"
    from masked_values_subset [OF row x] obtain row1
      where "row1 \<in> set (vals c')" "Some x \<in> set row1" by blast
    with sub obtain row0 where "row0 \<in> set (vals ?corr)" "Some x \<in> set row0" by blast
    with lib show "- 1 \<le> x \<and> x \<le> 1" by blast
  qed
  have small: "length cols < 3 \<longrightarrow>
        labels c' = labels ?corr \<and>
        length ?m = length (vals ?corr) \<and>
        (\<forall>i < length ?m.
           length (?m ! i) = length (vals ?corr ! i) \<and>
           (\<forall>j < length (?m ! i). j < i \<longrightarrow> ?m ! i ! j = vals ?corr ! i ! j))"
  proof
    assume "length cols < 3"
    from corr_heatmap_small [OF this, of pd_corr leaves df meth] assms fig
    have eq: "labels c' = labels ?corr"
      "?m = mask_where (vals ?corr) (triu_ones (vals ?corr))"
      by simp_all
    show "labels c' = labels ?corr \<and>
        length ?m = length (vals ?corr) \<and>
        (\<forall>i < length ?m.
           length (?m ! i) = length (vals ?corr ! i) \<and>
           (\<forall>j < length (?m ! i). j < i \<longrightarrow> ?m ! i ! j = vals ?corr ! i ! j))"
      unfolding eq by (simp add: length_masked_row nth_masked)
  qed
  from fig upper range small show ?thesis by blast
qed

lemma corr_heatmap_sample:
  "corr_heatmap sample_corr sample_leaves sample_table num_cols ''pearson'' =
     Inr (PxImshow [''margin'', ''sacks_permitidos'', ''puntos_anotados'', ''pct_sacks'']
            [[None, None, None, None],
             [Some (- 1/4), None, None, None],
             [Some (1/8), Some 0, None, None],
             [Some (3/4), Some (1/2), Some (- 1), None]])"
  by (simp add: corr_heatmap_def Let_def sample_corr_def sample_leaves_def num_cols_def
      iloc_def mask_where_def triu_ones_def upt_rec)

lemma corr_heatmap_sample2:
  "corr_heatmap sample_corr2 leaves sample_table [''margin'', ''pct_sacks''] ''kendall'' =
     Inr (PxImshow [''margin'', ''pct_sacks''] [[None, None], [Some (1/2), None]])"
  by (simp add: corr_heatmap_def Let_def sample_corr2_def mask_where_def triu_ones_def upt_rec)

theorem corr_heatmap_witness:
  "corr_heatmap sample_corr sample_leaves sample_table num_cols ''pearson'' =
     Inr (PxImshow [''margin'', ''sacks_permitidos'', ''puntos_anotados'', ''pct_sacks'']
            [[None, None, None, None],
             [Some (- 1/4), None, None, None],
             [Some (1/8), Some 0, None, None],
             [Some (3/4), Some (1/2), Some (- 1), None]]) \<and>
   [[None, None, None, None],
    [Some (- 1/4), None, None, None],
    [Some (1/8), Some 0, None, None],
    [Some (3/4), Some (1/2), Some (- 1 :: rat), None]] ! 1 ! 3 = None \<and>
   Some (- 1) \<in> set [Some (3/4), Some (1/2), Some (- 1 :: rat), None] \<and>
   - 1 \<le> (- 1 :: rat) \<and> (- 1 :: rat) \<le> 1 \<and>
   length [''margin'', ''pct_sacks''] < (3 :: nat) \<and>
   corr_heatmap sample_corr2 sample_leaves sample_table [''margin'', ''pct_sacks''] ''kendall'' =
     Inr (PxImshow [''margin'', ''pct_sacks''] [[None, None], [Some (1/2), None]]) \<and>
   labels (sample_corr2 sample_table [''margin'', ''pct_sacks''] ''kendall'') =
     [''margin'', ''pct_sacks'']"
proof -
  let ?M = "[[None, None, None, None],
             [Some (- 1/4), None, None, None],
             [Some (1/8), Some 0, None, None],
             [Some (3/4), Some (1/2), Some (- 1 :: rat), None]]"
  have lib: "\<forall>row \<in> set (vals (sample_corr sample_table num_cols ''pearson'')).
          \<forall>x. Some x \<in> set row \<longrightarrow> - 1 \<le> x \<and> x \<le> 1"
    by (auto simp: sample_corr_def)
  have mem: "Some (- 1) \<in> set [Some (3/4), Some (1/2), Some (- 1 :: rat), None]"
    by simp
  have len: "length [''margin'', ''pct_sacks''] < (3 :: nat)"
    by simp
  have first: "?M ! 1 ! 3 = None \<and> - 1 \<le> (- 1 :: rat) \<and> (- 1 :: rat) \<le> 1"
    using corr_heatmap_masks_upper_triangle [OF corr_heatmap_sample]
  proof (elim exE conjE)
    fix ls m
    assume e: "PxImshow [''margin'', ''sacks_permitidos'', ''puntos_anotados'', ''pct_sacks'']
                 ?M = PxImshow ls m"
      and up: "\<forall>i < length m. \<forall>j < length (m ! i). i \<le> j \<longrightarrow> m ! i ! j = None"
      and rg: "(\<forall>row \<in> set (vals (sample_corr sample_table num_cols ''pearson'')).
          \<forall>x. Some x \<in> set row \<longrightarrow> - 1 \<le> x \<and> x \<le> 1) \<longrightarrow>
          (\<forall>row \<in> set m. \<forall>x. Some x \<in> set row \<longrightarrow> - 1 \<le> x \<and> x \<le> 1)"
    from e have m: "m = ?M" by simp
    have "1 < length m" "3 < length (m ! 1)" unfolding m by simp_all
    with up have "m ! 1 ! 3 = None" by simp
    then have a: "?M ! 1 ! 3 = None" unfolding m .
    from rg lib have "\<forall>row \<in> set m. \<forall>x. Some x \<in> set row \<longrightarrow> - 1 \<le> x \<and> x \<le> 1"
      by (rule mp)
    then have "\<forall>x. Some x \<in> set [Some (3/4), Some (1/2), Some (- 1 :: rat), None]
               \<longrightarrow> - 1 \<le> x \<and> x \<le> 1"
      unfolding m by simp
    from this [rule_format, OF mem] a
    show "?M ! 1 ! 3 = None \<and> - 1 \<le> (- 1 :: rat) \<and> (- 1 :: rat) \<le> 1"
      by (intro conjI) simp_all
  qed
  have second: "labels (sample_corr2 sample_table [''margin'', ''pct_sacks''] ''kendall'') =
     [''margin'', ''pct_sacks'']"
    using corr_heatmap_masks_upper_triangle [OF corr_heatmap_sample2 [of sample_leaves]]
  proof (elim exE conjE)
    fix ls m
    assume e: "PxImshow [''margin'', ''pct_sacks''] [[None, None], [Some (1/2), None]]
               = PxImshow ls m"
      and sm: "length [''margin'', ''pct_sacks''] < 3 \<longrightarrow>
        ls = labels (sample_corr2 sample_table [''margin'', ''pct_sacks''] ''kendall'') \<and>
        length m = length (vals (sample_corr2 sample_table [''margin'', ''pct_sacks''] ''kendall'')) \<and>
        (\<forall>i < length m.
           length (m ! i) = length (vals (sample_corr2 sample_table [''margin'', ''pct_sacks''] ''kendall'') ! i) \<and>
           (\<forall>j < length (m ! i). j < i \<longrightarrow>
              m ! i ! j = vals (sample_corr2 sample_table [''margin'', ''pct_sacks''] ''kendall'') ! i ! j))"
    from sm len have "ls = labels (sample_corr2 sample_table [''margin'', ''pct_sacks''] ''kendall'')"
      by (rule mp [THEN conjunct1])
    moreover from e have "ls = [''margin'', ''pct_sacks'']" by simp
    ultimately show ?thesis by simp
  qed
  from first have f1: "?M ! 1 ! 3 = None" and f2: "- 1 \<le> (- 1 :: rat)"
    and f3: "(- 1 :: rat) \<le> 1"
    by simp_all
  from corr_heatmap_sample f1 mem f2 f3 len corr_heatmap_sample2 [of sample_leaves] second
  show ?thesis by (intro conjI)
qed


end
